(* ===== verification/Prelude.thy ===== *)
theory Prelude
  imports Complex_Main "HOL-Library.Multiset"
begin

text \<open>
  Shared vocabulary of the development: the named theorem collections the
  component theories feed, the symmetric difference of sets (the abstract
  effect of a toggle), and generic facts on lists, counting loops and the
  parity of cardinalities that the parity diagram, the stage animator and the
  metric chart all use.
\<close>

named_theorems js_simps "evaluation rules of the JavaScript value model"
named_theorems view_simps "unfolding rules of the render functions"

type_synonym js_string = string

abbreviation sym_diff :: "'a set \<Rightarrow> 'a set \<Rightarrow> 'a set" where
  "sym_diff A B \<equiv> (A - B) \<union> (B - A)"

subsection \<open>Lists\<close>

lemma set_filter_neq [simp]: "set (filter (\<lambda>e. e \<noteq> x) xs) = set xs - {x}"
  by auto

lemma length_filter_distinct_card:
  "distinct xs \<Longrightarrow> length (filter P xs) = card {x \<in> set xs. P x}"
proof -
  assume "distinct xs"
  then have "distinct (filter P xs)" by simp
  then have "card (set (filter P xs)) = length (filter P xs)"
    by (rule distinct_card)
  then show ?thesis by (simp add: set_filter)
qed

subsection \<open>Parity of a cardinality under a toggle\<close>

lemma sym_diff_singleton:
  "sym_diff A {x} = (if x \<in> A then A - {x} else insert x A)"
  by auto

lemma odd_card_sym_diff_singleton:
  assumes "finite A"
  shows "odd (card (sym_diff A {x})) \<longleftrightarrow> \<not> odd (card A)"
proof (cases "x \<in> A")
  case True
  with assms have "0 < card A" by (auto simp: card_gt_0_iff)
  moreover have "card (A - {x}) = card A - 1"
    using True assms by simp
  ultimately have "odd (card (A - {x})) \<longleftrightarrow> \<not> odd (card A)"
    by presburger
  with True show ?thesis by (simp only: sym_diff_singleton if_True)
next
  case False
  with assms show ?thesis by (simp add: sym_diff_singleton)
qed

end
