(* ===== verification/JsValues.thy ===== *)
theory JsValues
  imports Prelude
begin

text \<open>
  The part of the JavaScript value model the widgets rely on.
  \<^item> \<open>jsnum\<close>: an IEEE double idealised as an exact rational, together with the
    three special values the code can produce (NaN and the two infinities).
    Division by zero is written out as JavaScript does it, not as HOL's
    \<open>x / 0 = 0\<close>; \<open>js_max\<close> is \<open>Math.max\<close> on two arguments, which is NaN as
    soon as one argument is.
  \<^item> \<open>show_nat\<close>: \<open>String(n)\<close> for a non-negative integer (used for the integer
    keys of an object literal and for template literals), and \<open>parse_int\<close>:
    \<open>parseInt\<close> on the digit prefix of a string, \<open>None\<close> standing for NaN.
  Rounding of doubles is not modelled: the arithmetic is exact.
\<close>

subsection \<open>Numbers\<close>

datatype jsnum = Num rat | NaN | PosInf | NegInf

fun js_mul :: "jsnum \<Rightarrow> jsnum \<Rightarrow> jsnum" where
  "js_mul (Num a) (Num b) = Num (a * b)"
| "js_mul NaN _ = NaN"
| "js_mul _ NaN = NaN"
| "js_mul PosInf (Num b) = (if b = 0 then NaN else if 0 < b then PosInf else NegInf)"
| "js_mul NegInf (Num b) = (if b = 0 then NaN else if 0 < b then NegInf else PosInf)"
| "js_mul (Num a) PosInf = (if a = 0 then NaN else if 0 < a then PosInf else NegInf)"
| "js_mul (Num a) NegInf = (if a = 0 then NaN else if 0 < a then NegInf else PosInf)"
| "js_mul PosInf PosInf = PosInf"
| "js_mul PosInf NegInf = NegInf"
| "js_mul NegInf PosInf = NegInf"
| "js_mul NegInf NegInf = PosInf"

text \<open>
  Division. A zero divisor is taken as \<open>+0\<close> (the code never produces \<open>-0\<close>):
  \<open>0 / 0\<close> is NaN, a positive dividend gives \<open>Infinity\<close>, a negative one
  \<open>-Infinity\<close>.
\<close>

fun js_div :: "jsnum \<Rightarrow> jsnum \<Rightarrow> jsnum" where
  "js_div (Num a) (Num b) =
     (if b \<noteq> 0 then Num (a / b)
      else if a = 0 then NaN else if 0 < a then PosInf else NegInf)"
| "js_div NaN _ = NaN"
| "js_div _ NaN = NaN"
| "js_div (Num a) PosInf = Num 0"
| "js_div (Num a) NegInf = Num 0"
| "js_div PosInf (Num b) = (if 0 \<le> b then PosInf else NegInf)"
| "js_div NegInf (Num b) = (if 0 \<le> b then NegInf else PosInf)"
| "js_div _ _ = NaN"

text \<open>The order of the non-NaN numbers, infinities at the ends.\<close>

fun js_less :: "jsnum \<Rightarrow> jsnum \<Rightarrow> bool" where
  "js_less (Num a) (Num b) = (a < b)"
| "js_less NegInf y = (y \<noteq> NegInf \<and> y \<noteq> NaN)"
| "js_less x PosInf = (x \<noteq> PosInf \<and> x \<noteq> NaN)"
| "js_less _ _ = False"

definition js_max :: "jsnum \<Rightarrow> jsnum \<Rightarrow> jsnum" where
  "js_max x y = (if x = NaN \<or> y = NaN then NaN else if js_less x y then y else x)"

text \<open>\<open>Number.isFinite\<close>: the values a height may take to be drawn.\<close>

fun js_finite :: "jsnum \<Rightarrow> bool" where
  "js_finite (Num _) = True"
| "js_finite _ = False"

lemma js_max_Num [simp, js_simps]: "js_max (Num a) (Num b) = Num (max a b)"
  by (simp add: js_max_def max_def)

lemma js_max_NaN [simp, js_simps]: "js_max x NaN = NaN" "js_max NaN x = NaN"
  by (simp_all add: js_max_def)

lemma js_div_Num_nonzero [js_simps]: "b \<noteq> 0 \<Longrightarrow> js_div (Num a) (Num b) = Num (a / b)"
  by simp

lemma js_div_zero_zero [js_simps]: "js_div (Num 0) (Num 0) = NaN"
  by simp

lemma js_mul_NaN [simp, js_simps]: "js_mul NaN x = NaN" "js_mul x NaN = NaN"
  by (cases x; simp)+

subsection \<open>Decimal strings\<close>

definition digit_char :: "nat \<Rightarrow> char" where
  "digit_char d = char_of (48 + d)"

definition js_is_digit :: "char \<Rightarrow> bool" where
  "js_is_digit c \<longleftrightarrow> (48::nat) \<le> of_char c \<and> of_char c \<le> (57::nat)"

definition char_digit :: "char \<Rightarrow> nat" where
  "char_digit c = of_char c - 48"

text \<open>\<open>String(n)\<close> for a non-negative integer: most significant digit first.\<close>

fun show_nat :: "nat \<Rightarrow> js_string" where
  "show_nat n = (if n < 10 then [digit_char n] else show_nat (n div 10) @ [digit_char (n mod 10)])"

declare show_nat.simps [simp del]

lemma digit_char_simps [simp, js_simps]:
  "digit_char 0 = CHR ''0''" "digit_char 1 = CHR ''1''" "digit_char 2 = CHR ''2''"
  "digit_char 3 = CHR ''3''" "digit_char 4 = CHR ''4''" "digit_char 5 = CHR ''5''"
  "digit_char 6 = CHR ''6''" "digit_char 7 = CHR ''7''" "digit_char 8 = CHR ''8''"
  "digit_char 9 = CHR ''9''"
  by (unfold digit_char_def; code_simp)+

definition parse_digits :: "char list \<Rightarrow> nat" where
  "parse_digits ds = foldl (\<lambda>acc c. 10 * acc + char_digit c) 0 ds"

text \<open>
  \<open>parseInt\<close> on its digit prefix; \<open>None\<close> is NaN (no digit at the start).
  The leading white space, sign and radix prefixes \<open>parseInt\<close> also accepts
  never occur in the strings the program passes to it.
\<close>

definition parse_int :: "js_string \<Rightarrow> nat option" where
  "parse_int s = (let ds = takeWhile js_is_digit s in if ds = [] then None else Some (parse_digits ds))"

lemma show_nat_small [simp, js_simps]: "n < 10 \<Longrightarrow> show_nat n = [digit_char n]"
  by (simp add: show_nat.simps)

lemma show_nat_large: "\<not> n < 10 \<Longrightarrow> show_nat n = show_nat (n div 10) @ [digit_char (n mod 10)]"
  by (simp add: show_nat.simps)

lemma digit_char_digit: "d < 10 \<Longrightarrow> js_is_digit (digit_char d) \<and> char_digit (digit_char d) = d"
  by (simp add: digit_char_def js_is_digit_def char_digit_def)

lemma show_nat_digits: "\<forall>c \<in> set (show_nat n). js_is_digit c"
proof (induction n rule: show_nat.induct)
  case (1 n)
  then show ?case
    by (cases "n < 10") (simp_all add: show_nat_large digit_char_digit)
qed

lemma show_nat_nonempty [simp]: "show_nat n \<noteq> []"
  by (cases "n < 10") (simp_all add: show_nat_large)

lemma parse_digits_snoc: "parse_digits (ds @ [c]) = 10 * parse_digits ds + char_digit c"
  by (simp add: parse_digits_def)

lemma parse_digits_show_nat: "parse_digits (show_nat n) = n"
proof (induction n rule: show_nat.induct)
  case (1 n)
  show ?case
  proof (cases "n < 10")
    case True
    then show ?thesis by (simp add: parse_digits_def digit_char_digit)
  next
    case False
    with "1.IH" have "parse_digits (show_nat (n div 10)) = n div 10" by simp
    with False show ?thesis
      by (simp add: show_nat_large parse_digits_snoc digit_char_digit)
  qed
qed

lemma takeWhile_show_nat [simp]: "takeWhile js_is_digit (show_nat n) = show_nat n"
  using show_nat_digits by simp

lemma parse_int_show_nat [simp, js_simps]: "parse_int (show_nat n) = Some n"
  by (simp add: parse_int_def parse_digits_show_nat)

end
