(* ===== verification/ParityDiagram.thy ===== *)
theory ParityDiagram
  imports JsValues
begin

text \<open>
  The network-simulation diagram, \<open>SurfaceCodeDiagram\<close> in
  \<open>src/components/Diagrams.tsx\<close> (lines 11--97). Its only state is the list
  \<open>errors\<close> of activated server nodes; \<open>toggleError\<close> is the click handler;
  \<open>activeStabilizers\<close> is the derived list of alerting load balancers,
  recomputed on every render from the adjacency object by counting parities;
  the render shows each balancer's label or \<open>ALERT\<close>, each node's pressed
  state and a status line.
  The abstract specification \<open>alerting_spec\<close> is the parity rule on the set of
  activated nodes; the implementation refines it for every list of errors.
\<close>

subsection \<open>Data: the adjacency object and the widget's static tables\<close>

text \<open>
  The object literal \<open>{0: [0, 1], \<dots>, 4: [0, 1, 2, 3]}\<close> (lines 16--22).
  Its numeric keys become strings (\<open>String(k)\<close>), and \<open>Object.entries\<close>
  lists integer-like keys in ascending order, which is the literal's order.
\<close>

definition adjacency_literal :: "(nat \<times> nat list) list" where
  "adjacency_literal = [(0, [0, 1]), (1, [0, 2]), (2, [1, 3]), (3, [2, 3]), (4, [0, 1, 2, 3])]"

definition adjacency :: "(js_string \<times> nat list) list" where
  "adjacency = map (\<lambda>(k, stabs). (show_nat k, stabs)) adjacency_literal"

record stabilizer =
  stab_id :: nat
  stab_x :: js_string
  stab_y :: js_string
  stab_label :: js_string
  stab_color :: js_string

text \<open>The balancers drawn by the render (lines 54--58).\<close>

definition stabilizers :: "stabilizer list" where
  "stabilizers =
     [\<lparr>stab_id = 0, stab_x = ''50%'', stab_y = ''20%'', stab_label = ''LB-1'', stab_color = ''bg-blue-500''\<rparr>,
      \<lparr>stab_id = 1, stab_x = ''20%'', stab_y = ''50%'', stab_label = ''LB-2'', stab_color = ''bg-indigo-500''\<rparr>,
      \<lparr>stab_id = 2, stab_x = ''80%'', stab_y = ''50%'', stab_label = ''LB-3'', stab_color = ''bg-indigo-500''\<rparr>,
      \<lparr>stab_id = 3, stab_x = ''50%'', stab_y = ''80%'', stab_label = ''LB-4'', stab_color = ''bg-blue-500''\<rparr>]"

text \<open>The server buttons drawn by the render (lines 70--73): id and position.\<close>

definition data_nodes :: "(nat \<times> js_string \<times> js_string) list" where
  "data_nodes = [(0, ''20%'', ''20%''), (1, ''80%'', ''20%''), (4, ''50%'', ''50%''),
                 (2, ''20%'', ''80%''), (3, ''80%'', ''80%'')]"

subsection \<open>Operations\<close>

text \<open>
  \<open>toggleError\<close> (lines 24--26), the functional update given to
  \<open>setErrors\<close>: remove every occurrence if present, append otherwise.
\<close>

definition toggleError :: "nat \<Rightarrow> nat list \<Rightarrow> nat list" where
  "toggleError i prev = (if i \<in> set prev then filter (\<lambda>e. e \<noteq> i) prev else prev @ [i])"

text \<open>
  The counting loop of lines 29--34: \<open>forEach\<close> over the entries, incrementing
  \<open>errorCount\<close> when the parsed key is an activated node and the entry's list
  contains the balancer. A key that parses to NaN is never included.
\<close>

definition errorCount :: "nat list \<Rightarrow> nat \<Rightarrow> nat" where
  "errorCount errors stabId =
     foldl (\<lambda>cnt (dataId, stabs).
              if (case parse_int dataId of Some d \<Rightarrow> d \<in> set errors | None \<Rightarrow> False)
                 \<and> stabId \<in> set stabs
              then cnt + 1 else cnt)
           0 adjacency"

text \<open>\<open>activeStabilizers\<close> (lines 28--36): the balancers with an odd count.\<close>

definition activeStabilizers :: "nat list \<Rightarrow> nat list" where
  "activeStabilizers errors = filter (\<lambda>stabId. errorCount errors stabId mod 2 \<noteq> 0) [0, 1, 2, 3]"

subsection \<open>Render\<close>

text \<open>
  What a balancer shows (lines 62 and 65): \<open>ALERT\<close> in red when it is active,
  its label otherwise.
\<close>

definition stab_text :: "nat list \<Rightarrow> stabilizer \<Rightarrow> js_string" where
  "stab_text errors stab = (if stab_id stab \<in> set (activeStabilizers errors) then ''ALERT'' else stab_label stab)"

definition node_pressed :: "nat list \<Rightarrow> nat \<Rightarrow> bool" where
  "node_pressed errors q \<longleftrightarrow> q \<in> set errors"

text \<open>The status line (line 93).\<close>

definition status_line :: "nat list \<Rightarrow> js_string" where
  "status_line errors =
     (if length errors = 0 then ''Sistem berjalan normal.''
      else ''Terdeteksi beban tinggi pada '' @ show_nat (length (activeStabilizers errors)) @ '' zona balancer.'')"

record parity_view =
  balancer_texts :: "js_string list"
  pressed_nodes :: "bool list"
  status :: js_string

definition render_parity :: "nat list \<Rightarrow> parity_view" where
  "render_parity errors =
     \<lparr>balancer_texts = map (stab_text errors) stabilizers,
      pressed_nodes = map (\<lambda>(q, _, _). node_pressed errors q) data_nodes,
      status = status_line errors\<rparr>"

text \<open>A click on the button of node \<open>q\<close> (line 77); the state starts empty (line 13).\<close>

definition parity_init :: "nat list" where
  "parity_init = []"

definition click_node :: "nat \<Rightarrow> nat list \<Rightarrow> nat list" where
  "click_node q errors = toggleError q errors"

declare stab_text_def [view_simps] node_pressed_def [view_simps] render_parity_def [view_simps]

subsection \<open>Abstract specification: the parity rule\<close>

definition node_ids :: "nat set" where
  "node_ids = {0..<5}"

definition detector_ids :: "nat set" where
  "detector_ids = {0..<4}"

definition adj_of :: "nat \<Rightarrow> nat set" where
  "adj_of n = (case map_of adjacency_literal n of Some ds \<Rightarrow> set ds | None \<Rightarrow> {})"

definition alerting_spec :: "nat set \<Rightarrow> nat set" where
  "alerting_spec S = {d \<in> detector_ids. odd (card {n \<in> S \<inter> node_ids. d \<in> adj_of n})}"

text \<open>
  The reference table asked for by the specification: each of the 32 sets of
  activated nodes, listed in ascending order, with the detectors that must be
  alerting, computed by hand from the adjacency of lines 16--22 (row \<open>S\<close>
  is the binary expansion of its index).
\<close>

definition parity_reference_table :: "(nat list \<times> nat list) list" where
  "parity_reference_table =
     [([], []), ([0], [0, 1]), ([1], [0, 2]), ([0, 1], [1, 2]),
      ([2], [1, 3]), ([0, 2], [0, 3]), ([1, 2], [0, 1, 2, 3]), ([0, 1, 2], [2, 3]),
      ([3], [2, 3]), ([0, 3], [0, 1, 2, 3]), ([1, 3], [0, 3]), ([0, 1, 3], [1, 3]),
      ([2, 3], [1, 2]), ([0, 2, 3], [0, 2]), ([1, 2, 3], [0, 1]), ([0, 1, 2, 3], []),
      ([4], [0, 1, 2, 3]), ([0, 4], [2, 3]), ([1, 4], [1, 3]), ([0, 1, 4], [0, 3]),
      ([2, 4], [0, 2]), ([0, 2, 4], [1, 2]), ([1, 2, 4], []), ([0, 1, 2, 4], [0, 1]),
      ([3, 4], [0, 1]), ([0, 3, 4], []), ([1, 3, 4], [1, 2]), ([0, 1, 3, 4], [0, 2]),
      ([2, 3, 4], [0, 3]), ([0, 2, 3, 4], [1, 3]), ([1, 2, 3, 4], [2, 3]), ([0, 1, 2, 3, 4], [0, 1, 2, 3])]"

text \<open>
  The states the widget can reach: the empty start (line 13) and a click on
  one of the five server buttons (line 77).
\<close>

inductive parity_reach :: "nat list \<Rightarrow> bool" where
  start: "parity_reach parity_init"
| click: "parity_reach es \<Longrightarrow> q \<in> set (map fst data_nodes) \<Longrightarrow> parity_reach (click_node q es)"

code_pred parity_reach .

subsection \<open>Refinement of the parity rule\<close>

lemma errorCount_literal:
  "errorCount errors d =
     foldl (\<lambda>cnt (k, stabs). if k \<in> set errors \<and> d \<in> set stabs then cnt + 1 else cnt) 0 adjacency_literal"
  by (simp add: errorCount_def adjacency_def foldl_map split_def del: show_nat_small)

lemma errorCount_nodes:
  "errorCount errors d = length (filter (\<lambda>n. n \<in> set errors \<and> d \<in> adj_of n) [0, 1, 2, 3, 4])"
  by (simp add: errorCount_literal adjacency_literal_def adj_of_def)

lemma node_ids_list: "node_ids = set [0, 1, 2, 3, 4]"
  by (auto simp: node_ids_def)

lemma errorCount_card:
  "errorCount errors d = card {n \<in> set errors \<inter> node_ids. d \<in> adj_of n}"
proof -
  let ?P = "\<lambda>n. n \<in> set errors \<and> d \<in> adj_of n"
  have "length (filter ?P [0, 1, 2, 3, 4]) = card {n \<in> set [0, 1, 2, 3, 4]. ?P n}"
    by (rule length_filter_distinct_card) simp
  also have "{n \<in> set [0, 1, 2, 3, 4]. ?P n} = {n \<in> set errors \<inter> node_ids. d \<in> adj_of n}"
    by (auto simp: node_ids_list)
  finally show ?thesis by (simp only: errorCount_nodes)
qed

lemma activeStabilizers_spec:
  "activeStabilizers errors = filter (\<lambda>d. d \<in> alerting_spec (set errors)) [0, 1, 2, 3]"
  unfolding activeStabilizers_def
proof (rule filter_cong [OF refl])
  fix d :: nat
  assume "d \<in> set [0, 1, 2, 3]"
  then have "d \<in> detector_ids" by (auto simp: detector_ids_def)
  then show "(errorCount errors d mod 2 \<noteq> 0) = (d \<in> alerting_spec (set errors))"
    by (simp add: alerting_spec_def errorCount_card odd_iff_mod_2_eq_one)
qed

lemma set_toggleError: "set (toggleError n es) = sym_diff (set es) {n}"
  by (auto simp: toggleError_def)

lemma adj_of_detectors: "adj_of n \<subseteq> detector_ids"
  by (auto simp: adj_of_def adjacency_literal_def detector_ids_def split: if_splits)

lemma alerting_spec_toggle:
  assumes "n \<in> node_ids"
  shows "alerting_spec (sym_diff S {n}) = sym_diff (alerting_spec S) (adj_of n)"
proof -
  have fin: "finite {m \<in> S \<inter> node_ids. d \<in> adj_of m}" for d
    by (simp add: node_ids_def)
  have split: "{m \<in> sym_diff S {n} \<inter> node_ids. d \<in> adj_of m} =
      (if d \<in> adj_of n then sym_diff {m \<in> S \<inter> node_ids. d \<in> adj_of m} {n}
       else {m \<in> S \<inter> node_ids. d \<in> adj_of m})" for d
    using assms by auto
  have flip: "odd (card {m \<in> sym_diff S {n} \<inter> node_ids. d \<in> adj_of m}) \<longleftrightarrow>
        (odd (card {m \<in> S \<inter> node_ids. d \<in> adj_of m}) \<noteq> (d \<in> adj_of n))" for d
  proof (cases "d \<in> adj_of n")
    case True
    then have "{m \<in> sym_diff S {n} \<inter> node_ids. d \<in> adj_of m} =
        sym_diff {m \<in> S \<inter> node_ids. d \<in> adj_of m} {n}"
      by (simp only: split if_True)
    then have "odd (card {m \<in> sym_diff S {n} \<inter> node_ids. d \<in> adj_of m}) \<longleftrightarrow>
        \<not> odd (card {m \<in> S \<inter> node_ids. d \<in> adj_of m})"
      by (simp only: odd_card_sym_diff_singleton [OF fin])
    with True show ?thesis by simp
  next
    case False
    then show ?thesis by (simp only: split if_False) simp
  qed
  then show ?thesis
    using adj_of_detectors [of n] by (auto simp: alerting_spec_def)
qed

lemma set_fold_toggleError:
  "set (fold toggleError xs es) = sym_diff (set es) {x. odd (count (mset xs) x)}"
proof (induction xs arbitrary: es)
  case Nil
  then show ?case by simp
next
  case (Cons x xs)
  show ?case
    by (simp add: Cons.IH set_toggleError) (auto split: if_splits)
qed


lemma alerting_spec_detectors: "alerting_spec S \<subseteq> detector_ids"
  by (auto simp: alerting_spec_def)

lemma activeStabilizers_set: "set (activeStabilizers es) = alerting_spec (set es)"
proof -
  have "set (activeStabilizers es) = {d \<in> set [0, 1, 2, 3]. d \<in> alerting_spec (set es)}"
    by (simp only: activeStabilizers_spec set_filter)
  also have "set [0, 1, 2, 3::nat] = detector_ids"
    by (auto simp: detector_ids_def)
  finally show ?thesis
    using alerting_spec_detectors by blast
qed

lemma activeStabilizers_congr: "set es = set es' \<Longrightarrow> activeStabilizers es = activeStabilizers es'"
  by (simp add: activeStabilizers_spec)

lemma toggleError_fresh: "i \<notin> set es \<Longrightarrow> toggleError i es = es @ [i]"
  by (simp add: toggleError_def)

lemma distinct_toggleError: "distinct es \<Longrightarrow> distinct (toggleError i es)"
  by (auto simp: toggleError_def)

lemma node_ids_data_nodes: "fst ` set data_nodes = node_ids"
  by (auto simp: data_nodes_def node_ids_def)

lemma parity_reach_append:
  "parity_reach es \<Longrightarrow> set xs \<subseteq> node_ids \<Longrightarrow> distinct xs \<Longrightarrow> set xs \<inter> set es = {} \<Longrightarrow>
   parity_reach (es @ xs)"
proof (induction xs arbitrary: es)
  case Nil
  then show ?case by simp
next
  case (Cons x xs)
  from Cons.prems have "parity_reach (click_node x es)"
    by (intro parity_reach.click) (auto simp: node_ids_data_nodes)
  moreover from Cons.prems have "click_node x es = es @ [x]"
    by (auto simp: click_node_def toggleError_fresh)
  ultimately have "parity_reach (es @ [x])" by simp
  with Cons.prems have "parity_reach ((es @ [x]) @ xs)"
    by (intro Cons.IH) auto
  then show ?case by simp
qed

lemma length_activeStabilizers: "length (activeStabilizers es) = card (alerting_spec (set es))"
proof -
  have "distinct (activeStabilizers es)" by (simp add: activeStabilizers_def)
  then have "card (set (activeStabilizers es)) = length (activeStabilizers es)" by (rule distinct_card)
  then show ?thesis by (simp add: activeStabilizers_set)
qed

lemma parity_reach_inv: "parity_reach es \<Longrightarrow> distinct es \<and> set es \<subseteq> node_ids"
proof (induction rule: parity_reach.induct)
  case start
  then show ?case by (simp add: parity_init_def)
next
  case (click es q)
  then show ?case
    by (auto simp: click_node_def distinct_toggleError set_toggleError node_ids_data_nodes)
qed

lemma fold_click_clears: "distinct es \<Longrightarrow> fold click_node es es = []"
proof -
  assume d: "distinct es"
  have "fold click_node es es = fold toggleError es es"
    by (simp add: click_node_def [abs_def])
  moreover have "{x. odd (count (mset es) x)} = set es"
    using d by (auto simp: distinct_count_atmost_1)
  ultimately have "set (fold click_node es es) = {}"
    by (simp add: set_fold_toggleError)
  then show ?thesis by simp
qed

subsection \<open>Properties\<close>

text \<open>
  C1: the alerting balancers computed by the counting loop are exactly the detectors an odd number of whose adjacent nodes are activated (the parity rule), listed in ascending order without repetition, for every list of errors.
\<close>
theorem activeStabilizers_parity_rule:
  "set (activeStabilizers errors) = alerting_spec (set errors)
   \<and> sorted (activeStabilizers errors) \<and> distinct (activeStabilizers errors)"
proof -
  have "sorted (activeStabilizers errors)"
    unfolding activeStabilizers_def by (intro sorted_wrt_filter) simp
  moreover have "distinct (activeStabilizers errors)"
    by (simp add: activeStabilizers_def)
  ultimately show ?thesis by (simp add: activeStabilizers_set)
qed

text \<open>
  C2: toggling a server node flips exactly the alert state of the balancers adjacent to it and leaves the others unchanged.
\<close>
theorem toggle_flips_adjacent_detectors:
  "n \<in> node_ids \<Longrightarrow>
   set (activeStabilizers (toggleError n es)) = sym_diff (set (activeStabilizers es)) (adj_of n)"
  by (simp add: activeStabilizers_set set_toggleError alerting_spec_toggle)

theorem toggle_flips_adjacent_detectors_witness:
  "4 \<in> node_ids \<and> set (activeStabilizers (toggleError 4 [])) = sym_diff (set (activeStabilizers [])) (adj_of 4)"
proof -
  have h: "4 \<in> node_ids" by (simp add: node_ids_def)
  from h toggle_flips_adjacent_detectors [OF h, of "[]"] show ?thesis by blast
qed

text \<open>
  C3: toggling the same node twice restores the activated set and the list of alerting balancers.
\<close>
theorem toggle_twice_restores:
  "set (toggleError n (toggleError n es)) = set es
   \<and> activeStabilizers (toggleError n (toggleError n es)) = activeStabilizers es"
proof -
  have "set (toggleError n (toggleError n es)) = set es"
    by (auto simp: set_toggleError)
  then show ?thesis using activeStabilizers_congr by blast
qed

text \<open>
  C4: applying a sequence of toggles in any order with the same multiset of node ids gives the same activated set and the same alerting balancers.
\<close>
theorem toggles_order_independent:
  "mset xs = mset ys \<Longrightarrow>
   set (fold toggleError xs es) = set (fold toggleError ys es)
   \<and> activeStabilizers (fold toggleError xs es) = activeStabilizers (fold toggleError ys es)"
proof -
  assume "mset xs = mset ys"
  then have "set (fold toggleError xs es) = set (fold toggleError ys es)"
    by (simp add: set_fold_toggleError)
  then show ?thesis using activeStabilizers_congr by blast
qed

theorem toggles_order_independent_witness:
  "mset [0, 4, 0, 2] = mset [4, 0, 2, 0::nat]
   \<and> set (fold toggleError [0, 4, 0, 2] []) = set (fold toggleError [4, 0, 2, 0] [])
   \<and> activeStabilizers (fold toggleError [0, 4, 0, 2] []) = activeStabilizers (fold toggleError [4, 0, 2, 0] [])"
proof -
  have h: "mset [0, 4, 0, 2] = mset [4, 0, 2, 0::nat]" by simp
  from h toggles_order_independent [OF h, of "[]"] show ?thesis by blast
qed

text \<open>
  C5: in every state reachable by clicks from the empty start, the errors list has no duplicates and holds only the five node ids.
\<close>
theorem parity_reach_invariant:
  "parity_reach es \<Longrightarrow> distinct es \<and> set es \<subseteq> node_ids"
  by (rule parity_reach_inv)

theorem parity_reach_invariant_witness:
  "parity_reach [4, 0] \<and> distinct [4, 0::nat] \<and> set [4, 0] \<subseteq> node_ids"
proof -
  have "parity_reach [4, 0]"
    using parity_reach_append [OF parity_reach.start, of "[4, 0]"]
    by (simp add: parity_init_def node_ids_def)
  with parity_reach_invariant [of "[4, 0]"] show ?thesis by simp
qed

text \<open>
  C6: every one of the 32 subsets of the five nodes is the activated set of some reachable state.
\<close>
theorem every_node_subset_reachable:
  "S \<subseteq> node_ids \<Longrightarrow> \<exists>es. parity_reach es \<and> set es = S"
proof -
  assume S: "S \<subseteq> node_ids"
  then have fin: "finite S" by (rule finite_subset) (simp add: node_ids_def)
  have "parity_reach ([] @ sorted_list_of_set S)"
    using parity_reach_append [OF parity_reach.start, of "sorted_list_of_set S"] S fin
    by (simp add: parity_init_def)
  with fin show ?thesis by auto
qed

theorem every_node_subset_reachable_witness:
  "{0, 1, 2, 3} \<subseteq> node_ids \<and> (\<exists>es. parity_reach es \<and> set es = {0, 1, 2, 3})"
  using every_node_subset_reachable [of "{0, 1, 2, 3}"] by (simp add: node_ids_def)

text \<open>
  C16: with at least one node activated, the status line reports the number
  of detectors the parity rule makes alert; with none it shows the normal
  message. The test is on the activated nodes, not on the alerts: with nodes
  0--3 activated no detector alerts (row 15 of the reference table) and the
  line still reports high load in 0 zones, where the specification says it
  reflects whether any detector is alerting.
\<close>
theorem status_line_counts_alerts:
  "status_line errors =
     (if errors = [] then ''Sistem berjalan normal.''
      else ''Terdeteksi beban tinggi pada '' @ show_nat (card (alerting_spec (set errors))) @ '' zona balancer.'')"
  by (simp add: status_line_def length_activeStabilizers)

text \<open>
  C17: the render shows ALERT on exactly the balancers the parity rule makes
  alert (their labels otherwise) and shows each server button pressed exactly
  when its node is activated.
\<close>
theorem render_parity_shows_alerts:
  "balancer_texts (render_parity errors)
     = map (\<lambda>s. if stab_id s \<in> alerting_spec (set errors) then ''ALERT'' else stab_label s) stabilizers
   \<and> pressed_nodes (render_parity errors) = map (\<lambda>(q, _, _). q \<in> set errors) data_nodes"
  by (simp add: view_simps activeStabilizers_set)

text \<open>
  C23: the exhaustive check of the specification. The table covers every
  subset of the five nodes, and for each row, clicking its nodes from the
  empty state yields exactly the row's alerting detectors, evaluated by the
  kernel on all 32 cases.
\<close>

theorem parity_reference_table_matches:
  "set (map (set \<circ> fst) parity_reference_table) = Pow {0..4}
   \<and> list_all (\<lambda>(S, A). activeStabilizers (fold click_node S parity_init) = A) parity_reference_table"
  by code_simp

text \<open>
  C25: recovery: from any state the widget can reach, at most five clicks on
  server buttons (each activated node once) bring it back to the initial
  state with no balancer alerting.
\<close>

theorem parity_clear_within_five:
  "parity_reach es \<Longrightarrow>
   \<exists>cs. length cs \<le> 5 \<and> set cs \<subseteq> node_ids \<and> fold click_node cs es = parity_init
        \<and> activeStabilizers (fold click_node cs es) = []"
proof -
  assume "parity_reach es"
  then have d: "distinct es" and s: "set es \<subseteq> node_ids" by (simp_all add: parity_reach_inv)
  have "length es = card (set es)" using d by (simp add: distinct_card)
  also have "\<dots> \<le> card node_ids" using s by (intro card_mono) (simp_all add: node_ids_def)
  finally have "length es \<le> 5" by (simp add: node_ids_def)
  moreover have "set (activeStabilizers []) = {}"
    by (simp add: activeStabilizers_set alerting_spec_def)
  ultimately show ?thesis using s fold_click_clears [OF d]
    by (auto simp: parity_init_def)
qed

theorem parity_clear_within_five_witness:
  "parity_reach [4, 0] \<and> (\<exists>cs. length cs \<le> 5 \<and> set cs \<subseteq> node_ids \<and> fold click_node cs [4, 0] = parity_init
        \<and> activeStabilizers (fold click_node cs [4, 0]) = [])"
proof -
  have h: "parity_reach [4, 0]"
    using parity_reach_append [OF parity_reach.start, of "[4, 0]"]
    by (simp add: parity_init_def node_ids_def)
  from h parity_clear_within_five [OF h] show ?thesis by blast
qed

end
