(* ===== verification/StageAnimator.thy ===== *)
theory StageAnimator
  imports Prelude
begin

text \<open>
  The architecture diagram, \<open>TransformerDecoderDiagram\<close> in
  \<open>src/components/Diagrams.tsx\<close> (lines 100--164). Its state is the stage
  \<open>step\<close> (line 101); a \<open>useEffect\<close> with empty dependencies (lines 103--108)
  registers one interval whose callback applies the updater
  \<open>s \<Rightarrow> (s + 1) % 4\<close> and returns a cleanup that clears it. The model
  makes the host explicit: the record \<open>animator\<close> holds the component's state
  cell, the registered interval handle (\<open>None\<close> once cleared), whether the
  component is mounted, and the host's next handle. Events are the mount, a
  firing of the registered interval, and the unmount.
\<close>

subsection \<open>State and events\<close>

record animator =
  step :: nat
  timer :: "nat option"
  mounted :: bool
  next_handle :: nat

datatype anim_event = Mount | Tick | Unmount

definition anim_init :: animator where
  "anim_init = \<lparr>step = 0, timer = None, mounted = False, next_handle = 0\<rparr>"

text \<open>The functional update passed to \<open>setStep\<close> (line 105).\<close>

definition advance :: "nat \<Rightarrow> nat" where
  "advance s = (s + 1) mod 4"

text \<open>
  Mounting creates the state cell with \<open>useState(0)\<close> and runs the effect
  once: \<open>setInterval\<close> returns a fresh handle (lines 101--106).
\<close>

definition mount :: "animator \<Rightarrow> animator" where
  "mount a =
     (if mounted a then a
      else a\<lparr>step := 0, timer := Some (next_handle a), mounted := True,
             next_handle := Suc (next_handle a)\<rparr>)"

text \<open>The interval fires: only a registered interval runs its callback (line 105).\<close>

definition tick :: "animator \<Rightarrow> animator" where
  "tick a = (case timer a of None \<Rightarrow> a | Some _ \<Rightarrow> a\<lparr>step := advance (step a)\<rparr>)"

text \<open>Unmounting runs the effect's cleanup, \<open>clearInterval(interval)\<close> (line 107).\<close>

definition unmount :: "animator \<Rightarrow> animator" where
  "unmount a = (if mounted a then a\<lparr>timer := None, mounted := False\<rparr> else a)"

fun animator_step :: "animator \<Rightarrow> anim_event \<Rightarrow> animator" where
  "animator_step a Mount = mount a"
| "animator_step a Tick = tick a"
| "animator_step a Unmount = unmount a"

definition animator_run :: "animator \<Rightarrow> anim_event list \<Rightarrow> animator" where
  "animator_run a es = fold (\<lambda>e a. animator_step a e) es a"

inductive anim_reach :: "animator \<Rightarrow> bool" where
  init: "anim_reach anim_init"
| step: "anim_reach a \<Longrightarrow> anim_reach (animator_step a e)"

subsection \<open>Render\<close>

datatype core_caption = NoCaption | Processing | Optimizing

record stage_view =
  input_active :: bool
  arrow1_on :: bool
  core_active :: bool
  caption :: core_caption
  arrow2_on :: bool
  output_active :: bool
  dots :: "bool list"

text \<open>
  What the render derives from \<open>step\<close> (lines 117--161): the input box (line 121),
  the arrows (lines 128 and 141), the core engine with its caption
  (lines 132--135), the store (lines 145--150) and the progress dots
  (lines 158--160).
\<close>

definition render_stage :: "nat \<Rightarrow> stage_view" where
  "render_stage s =
     \<lparr>input_active = (s = 0),
      arrow1_on = (1 \<le> s),
      core_active = (s = 1 \<or> s = 2),
      caption = (if s = 1 then Processing else if s = 2 then Optimizing else NoCaption),
      arrow2_on = (3 \<le> s),
      output_active = (s = 3),
      dots = map (\<lambda>d. s = d) [0, 1, 2, 3]\<rparr>"

subsection \<open>Abstract specification\<close>

text \<open>
  The promise of the spec: a pure cycle that runs while mounted. The abstract
  state is whether the cycle runs and how many firings it has seen since the
  last mount; a mount of a running cycle changes nothing.
\<close>

fun spec_step :: "bool \<times> nat \<Rightarrow> anim_event \<Rightarrow> bool \<times> nat" where
  "spec_step (r, n) Mount = (if r then (r, n) else (True, 0))"
| "spec_step (r, n) Tick = (if r then (r, Suc n) else (r, n))"
| "spec_step (r, n) Unmount = (False, n)"

definition stage_spec :: "anim_event list \<Rightarrow> bool \<times> nat" where
  "stage_spec es = fold (\<lambda>e rn. spec_step rn e) es (False, 0)"

declare render_stage_def [view_simps]

text \<open>The invariant the animator keeps.\<close>

definition anim_inv :: "animator \<Rightarrow> bool" where
  "anim_inv a \<longleftrightarrow> step a < 4 \<and> (timer a \<noteq> None \<longleftrightarrow> mounted a)"

subsection \<open>Run lemmas\<close>

lemmas animator_defs = mount_def tick_def unmount_def advance_def

lemma anim_inv_init: "anim_inv anim_init"
  by (simp add: anim_inv_def anim_init_def)

lemma anim_inv_step: "anim_inv a \<Longrightarrow> anim_inv (animator_step a e)"
  by (cases e) (auto simp: anim_inv_def animator_defs split: option.splits)

lemma anim_reach_inv: "anim_reach a \<Longrightarrow> anim_inv a"
  by (induction rule: anim_reach.induct) (auto intro: anim_inv_init anim_inv_step)

lemma animator_run_Cons [simp]: "animator_run a (e # es) = animator_run (animator_step a e) es"
  by (simp add: animator_run_def)

lemma animator_run_Nil [simp]: "animator_run a [] = a"
  by (simp add: animator_run_def)

lemma anim_reach_run: "anim_reach a \<Longrightarrow> anim_reach (animator_run a es)"
  by (induction es arbitrary: a) (auto intro: anim_reach.step)

lemma ticks_advance:
  "mounted a \<Longrightarrow> anim_inv a \<Longrightarrow>
   step (animator_run a (replicate k Tick)) = (step a + k) mod 4 \<and> mounted (animator_run a (replicate k Tick))"
proof (induction k arbitrary: a)
  case 0
  then show ?case by (simp add: anim_inv_def)
next
  case (Suc k)
  from Suc.prems obtain h where "timer a = Some h" by (auto simp: anim_inv_def)
  then have t: "animator_step a Tick = a\<lparr>step := (step a + 1) mod 4\<rparr>"
    by (simp add: tick_def advance_def)
  have "anim_inv (animator_step a Tick)" using Suc.prems(2) by (rule anim_inv_step)
  with Suc.prems(1) t Suc.IH [of "animator_step a Tick"] show ?case
    by (simp add: mod_add_left_eq)
qed

lemma unmounted_idle:
  "anim_inv a \<Longrightarrow> \<not> mounted a \<Longrightarrow> Mount \<noteq> e \<Longrightarrow> animator_step a e = a"
  by (cases e) (auto simp: anim_inv_def animator_defs)

lemma spec_simulation_step:
  assumes "anim_inv a" "mounted a = r" "step a = n mod 4"
  shows "mounted (animator_step a e) = fst (spec_step (r, n) e)
         \<and> step (animator_step a e) = snd (spec_step (r, n) e) mod 4"
  using assms by (cases e) (auto simp: animator_defs anim_inv_def mod_Suc_eq split: option.splits)

lemma spec_simulation_run:
  "anim_inv a \<Longrightarrow> mounted a = r \<Longrightarrow> step a = n mod 4 \<Longrightarrow>
   mounted (animator_run a es) = fst (fold (\<lambda>e rn. spec_step rn e) es (r, n))
   \<and> step (animator_run a es) = snd (fold (\<lambda>e rn. spec_step rn e) es (r, n)) mod 4"
proof (induction es arbitrary: a r n)
  case Nil
  then show ?case by simp
next
  case (Cons e es)
  obtain r' n' where rn: "spec_step (r, n) e = (r', n')" by fastforce
  from Cons.prems have "mounted (animator_step a e) = r'" "step (animator_step a e) = n' mod 4"
    using spec_simulation_step [of a r n e] rn by simp_all
  moreover have "anim_inv (animator_step a e)" using Cons.prems(1) by (rule anim_inv_step)
  ultimately show ?case using Cons.IH [of "animator_step a e" r' n'] rn by simp
qed

subsection \<open>Properties\<close>

text \<open>
  C7: in every reachable state of the animator the stage is one of 0..3, and an interval is registered exactly while the component is mounted.
\<close>
theorem anim_reach_invariant:
  "anim_reach a \<Longrightarrow> step a < 4 \<and> (timer a \<noteq> None \<longleftrightarrow> mounted a)"
  using anim_reach_inv by (simp add: anim_inv_def)

theorem anim_reach_invariant_witness:
  "anim_reach (animator_run anim_init [Mount, Tick]) \<and> step (animator_run anim_init [Mount, Tick]) < 4
   \<and> (timer (animator_run anim_init [Mount, Tick]) \<noteq> None \<longleftrightarrow> mounted (animator_run anim_init [Mount, Tick]))"
proof -
  have h: "anim_reach (animator_run anim_init [Mount, Tick])"
    by (rule anim_reach_run [OF anim_reach.init])
  from h anim_reach_invariant [OF h] show ?thesis by blast
qed

text \<open>
  C8: after mounting, k firings of the interval leave the stage at k mod 4; in particular four firings return to stage 0.
\<close>
theorem ticks_after_mount:
  "step (animator_run anim_init (Mount # replicate k Tick)) = k mod 4"
proof -
  have "anim_inv (animator_step anim_init Mount)"
    by (rule anim_inv_step [OF anim_inv_init])
  moreover have "mounted (animator_step anim_init Mount)" "step (animator_step anim_init Mount) = 0"
    by (simp_all add: anim_init_def mount_def)
  ultimately show ?thesis using ticks_advance [of "animator_step anim_init Mount" k] by simp
qed

text \<open>
  C9: once the component is unmounted, no further interval firing or unmount changes its state: the cleanup releases the timer.
\<close>
theorem no_change_after_unmount:
  "anim_reach a \<Longrightarrow> Mount \<notin> set es \<Longrightarrow> animator_run (animator_step a Unmount) es = animator_step a Unmount"
proof -
  assume r: "anim_reach a" and es: "Mount \<notin> set es"
  have i: "anim_inv (animator_step a Unmount)" by (rule anim_inv_step [OF anim_reach_inv [OF r]])
  have m: "\<not> mounted (animator_step a Unmount)" by (simp add: unmount_def)
  have "\<And>b. anim_inv b \<Longrightarrow> \<not> mounted b \<Longrightarrow> Mount \<notin> set es \<Longrightarrow> animator_run b es = b"
    by (induction es) (simp_all add: unmounted_idle)
  from this [OF i m es] show ?thesis .
qed

theorem no_change_after_unmount_witness:
  "anim_reach (animator_run anim_init [Mount, Tick]) \<and> Mount \<notin> set [Tick, Tick, Unmount]
   \<and> animator_run (animator_step (animator_run anim_init [Mount, Tick]) Unmount) [Tick, Tick, Unmount]
     = animator_step (animator_run anim_init [Mount, Tick]) Unmount"
proof -
  have h: "anim_reach (animator_run anim_init [Mount, Tick])"
    by (rule anim_reach_run [OF anim_reach.init])
  have m: "Mount \<notin> set [Tick, Tick, Unmount]" by simp
  from h m no_change_after_unmount [OF h m] show ?thesis by blast
qed

text \<open>
  C10: for each stage 0..3 exactly one of the input, core and store boxes is highlighted, exactly the dot of that stage is wide, the core shows a caption exactly when it is active, and the second arrow is lit exactly when the store is.
\<close>
theorem render_one_stage_active:
  "s < 4 \<Longrightarrow>
   length (filter id [input_active (render_stage s), core_active (render_stage s), output_active (render_stage s)]) = 1
   \<and> dots (render_stage s) = map (\<lambda>d. d = s) [0, 1, 2, 3]
   \<and> (caption (render_stage s) \<noteq> NoCaption \<longleftrightarrow> core_active (render_stage s))
   \<and> (arrow2_on (render_stage s) \<longleftrightarrow> output_active (render_stage s))"
proof -
  assume "s < 4"
  then have "s = 0 \<or> s = 1 \<or> s = 2 \<or> s = 3" by arith
  then show ?thesis by (auto simp: view_simps)
qed

theorem render_one_stage_active_witness:
  "(2::nat) < 4 \<and> length (filter id [input_active (render_stage 2), core_active (render_stage 2), output_active (render_stage 2)]) = 1
   \<and> dots (render_stage 2) = map (\<lambda>d::nat. d = 2) [0, 1, 2, 3]
   \<and> (caption (render_stage 2) \<noteq> NoCaption \<longleftrightarrow> core_active (render_stage 2))
   \<and> (arrow2_on (render_stage 2) \<longleftrightarrow> output_active (render_stage 2))"
proof -
  have h: "(2::nat) < 4" by simp
  from h render_one_stage_active [OF h] show ?thesis by blast
qed

text \<open>
  C18: the animator refines its abstract specification: after any sequence of
  mounts, firings and unmounts from the start, the component is mounted
  exactly when the specification says it is running, and its stage is the
  specification's count of firings since the last mount, mod 4.
\<close>
theorem animator_refines_stage_spec:
  "step (animator_run anim_init es) = snd (stage_spec es) mod 4
   \<and> mounted (animator_run anim_init es) = fst (stage_spec es)"
  using spec_simulation_run [OF anim_inv_init, of False 0 es]
  by (simp add: anim_init_def stage_spec_def)

text \<open>
  C19: liveness of the cycle: from any reachable mounted state, every stage
  0..3 is shown again within fewer than four firings of the interval, and the
  component stays mounted meanwhile.
\<close>

theorem every_stage_reached:
  "anim_reach a \<Longrightarrow> mounted a \<Longrightarrow> t < 4 \<Longrightarrow>
   \<exists>k < 4. step (animator_run a (replicate k Tick)) = t \<and> mounted (animator_run a (replicate k Tick))"
proof -
  assume r: "anim_reach a" and m: "mounted a" and t: "t < 4"
  have i: "anim_inv a" using r by (rule anim_reach_inv)
  then have s: "step a < 4" by (simp add: anim_inv_def)
  define k where "k = (t + 4 - step a) mod 4"
  have "k < 4" by (simp add: k_def)
  moreover have "(step a + k) mod 4 = (step a + (t + 4 - step a)) mod 4"
    unfolding k_def by (simp add: mod_add_right_eq)
  moreover have "step a + (t + 4 - step a) = t + 4"
    using s by simp
  ultimately have "k < 4 \<and> (step a + k) mod 4 = t"
    using t by simp
  then show ?thesis using ticks_advance [OF m i, of k] by blast
qed

theorem every_stage_reached_witness:
  "anim_reach (animator_run anim_init [Mount]) \<and> mounted (animator_run anim_init [Mount]) \<and> (3::nat) < 4
   \<and> (\<exists>k < 4. step (animator_run (animator_run anim_init [Mount]) (replicate k Tick)) = 3
        \<and> mounted (animator_run (animator_run anim_init [Mount]) (replicate k Tick)))"
proof -
  have h: "anim_reach (animator_run anim_init [Mount])" "mounted (animator_run anim_init [Mount])" "(3::nat) < 4"
    by (rule anim_reach_run [OF anim_reach.init]) (simp_all add: anim_init_def mount_def)
  from h every_stage_reached [OF h] show ?thesis by blast
qed
end
