(* ===== verification/MetricChart.thy ===== *)
theory MetricChart
  imports JsValues
begin

text \<open>
  The before/after chart, \<open>PerformanceMetricDiagram\<close> in
  \<open>src/components/Diagrams.tsx\<close> (lines 167--252). Its state is the selected
  key (line 168, initially \<open>lcp\<close>); the static table \<open>data\<close> (lines 174--178)
  gives each key a name, two numbers and a unit; the render computes
  \<open>maxVal\<close> with 20\<percent> headroom (line 181) and the two bar heights in percent,
  the after bar floored at 1 by \<open>Math.max\<close> (lines 226 and 240). Only two
  buttons exist (lines 191--202): \<open>lcp\<close> and \<open>fid\<close>. Numbers are \<open>jsnum\<close>, so
  the heights of an all-zero sample are the NaN that JavaScript computes.
\<close>

subsection \<open>Data\<close>

datatype metric_key = Lcp | Fid | Cls

instantiation metric_key :: enum
begin

definition enum_metric_key :: "metric_key list" where
  "enum_metric_key = [Lcp, Fid, Cls]"

definition enum_all_metric_key :: "(metric_key \<Rightarrow> bool) \<Rightarrow> bool" where
  "enum_all_metric_key P \<longleftrightarrow> P Lcp \<and> P Fid \<and> P Cls"

definition enum_ex_metric_key :: "(metric_key \<Rightarrow> bool) \<Rightarrow> bool" where
  "enum_ex_metric_key P \<longleftrightarrow> P Lcp \<or> P Fid \<or> P Cls"

instance
proof
  have u: "UNIV = {Lcp, Fid, Cls}"
    using metric_key.exhaust by auto
  show "UNIV = set (enum_class.enum :: metric_key list)"
    by (simp add: u enum_metric_key_def)
  show "distinct (enum_class.enum :: metric_key list)"
    by (simp add: enum_metric_key_def)
  show "enum_class.enum_all P = Ball UNIV P" for P :: "metric_key \<Rightarrow> bool"
    by (simp add: u enum_all_metric_key_def)
  show "enum_class.enum_ex P = Bex UNIV P" for P :: "metric_key \<Rightarrow> bool"
    by (simp add: u enum_ex_metric_key_def)
qed

end

record metric_sample =
  metric_name :: js_string
  before :: rat
  after :: rat
  unit_label :: js_string

fun metric_data :: "metric_key \<Rightarrow> metric_sample" where
  "metric_data Lcp = \<lparr>metric_name = ''Loading Time (s)'', before = 2.8, after = 0.8, unit_label = ''s''\<rparr>"
| "metric_data Fid = \<lparr>metric_name = ''Response Time (ms)'', before = 200, after = 45, unit_label = ''ms''\<rparr>"
| "metric_data Cls = \<lparr>metric_name = ''Layout Shift'', before = 0.25, after = 0.005, unit_label = ''''\<rparr>"

record chart_state =
  metric :: metric_key

definition chart_init :: chart_state where
  "chart_init = \<lparr>metric = Lcp\<rparr>"

subsection \<open>Operations\<close>

text \<open>\<open>setMetric\<close>, and the two buttons that call it (lines 192 and 198).\<close>

definition setMetric :: "metric_key \<Rightarrow> chart_state \<Rightarrow> chart_state" where
  "setMetric k s = s\<lparr>metric := k\<rparr>"

datatype chart_event = ClickLcp | ClickFid

fun chart_step :: "chart_state \<Rightarrow> chart_event \<Rightarrow> chart_state" where
  "chart_step s ClickLcp = setMetric Lcp s"
| "chart_step s ClickFid = setMetric Fid s"

inductive chart_reach :: "chart_state \<Rightarrow> bool" where
  init: "chart_reach chart_init"
| step: "chart_reach s \<Longrightarrow> chart_reach (chart_step s e)"

text \<open>\<open>maxVal = Math.max(before, after) * 1.2\<close> (line 181).\<close>

definition maxVal :: "metric_sample \<Rightarrow> jsnum" where
  "maxVal d = js_mul (js_max (Num (before d)) (Num (after d))) (Num 1.2)"

text \<open>The before bar: \<open>(before / maxVal) * 100\<close> percent (line 226).\<close>

definition before_height :: "metric_sample \<Rightarrow> jsnum" where
  "before_height d = js_mul (js_div (Num (before d)) (maxVal d)) (Num 100)"

text \<open>The after bar: \<open>Math.max(1, (after / maxVal) * 100)\<close> percent (line 240).\<close>

definition after_height :: "metric_sample \<Rightarrow> jsnum" where
  "after_height d = js_max (Num 1) (js_mul (js_div (Num (after d)) (maxVal d)) (Num 100))"

subsection \<open>Render\<close>

record chart_view =
  before_label :: "rat \<times> js_string"
  after_label :: "rat \<times> js_string"
  before_pct :: jsnum
  after_pct :: jsnum
  lcp_highlighted :: bool
  fid_highlighted :: bool

text \<open>
  The labels print the number followed by the unit (lines 222 and 236); the
  buttons are highlighted by comparing the state with their key
  (lines 193 and 199).
\<close>

definition render_chart :: "chart_state \<Rightarrow> chart_view" where
  "render_chart s =
     (let d = metric_data (metric s) in
      \<lparr>before_label = (before d, unit_label d),
       after_label = (after d, unit_label d),
       before_pct = before_height d,
       after_pct = after_height d,
       lcp_highlighted = (metric s = Lcp),
       fid_highlighted = (metric s = Fid)\<rparr>)"

declare render_chart_def [view_simps]

subsection \<open>Height lemmas\<close>

lemma maxVal_pos:
  "0 \<le> before d \<Longrightarrow> 0 \<le> after d \<Longrightarrow> 0 < max (before d) (after d) \<Longrightarrow>
   maxVal d = Num (max (before d) (after d) * 1.2)"
  by (simp add: maxVal_def)

lemma scaled_bounds:
  fixes x m :: rat
  assumes "0 \<le> x" "x \<le> m" "0 < m"
  shows "0 \<le> x / (m * 1.2) * 100 \<and> x / (m * 1.2) * 100 \<le> 250 / 3"
  using assms by (simp add: field_simps)

lemma scaled_top:
  fixes m :: rat
  assumes "0 < m"
  shows "m / (m * 1.2) * 100 = 250 / 3"
  using assms by (simp add: field_simps)

subsection \<open>Properties\<close>

text \<open>
  C11: for any sample with non-negative values not both zero, both heights
  are finite numbers, the before bar lies in [0, 85] percent, the after bar in
  [1, 85] percent (its floor of 1), and the taller before bar reaches at least
  80 percent: the bars fill most of the box but the 20\<percent> headroom keeps
  the taller one well below its top. Over exact rationals the taller bar is at
  250/3 percent; the bounds leave more than a point and a half of slack on
  either side, so they hold as well for the doubles the program computes
  (83.33333333333334 for the \<open>fid\<close> and \<open>cls\<close> rows), whose rounding error is
  of the order of 1e-13.
\<close>
theorem bar_heights_bounded:
  assumes "0 \<le> before d" "0 \<le> after d" "0 < max (before d) (after d)"
  shows "\<exists>hb ha. before_height d = Num hb \<and> after_height d = Num ha
           \<and> 0 \<le> hb \<and> hb \<le> 85 \<and> 1 \<le> ha \<and> ha \<le> 85
           \<and> (after d \<le> before d \<longrightarrow> 80 \<le> hb)"
proof -
  let ?m = "max (before d) (after d)"
  have mv: "maxVal d = Num (?m * 1.2)" using assms by (rule maxVal_pos)
  have nz: "?m * 1.2 \<noteq> 0" using assms(3) by simp
  have b: "0 \<le> before d / (?m * 1.2) * 100 \<and> before d / (?m * 1.2) * 100 \<le> 250 / 3"
    using assms by (intro scaled_bounds) auto
  have a: "0 \<le> after d / (?m * 1.2) * 100 \<and> after d / (?m * 1.2) * 100 \<le> 250 / 3"
    using assms by (intro scaled_bounds) auto
  have top: "after d \<le> before d \<Longrightarrow> before d / (?m * 1.2) * 100 = 250 / 3"
    using assms scaled_top [of "before d"] by (simp add: max_def)
  define hb where "hb = before d / (?m * 1.2) * 100"
  define ha where "ha = after d / (?m * 1.2) * 100"
  have hb_eq: "before_height d = Num hb"
    unfolding before_height_def mv hb_def using nz by simp
  have ha_eq: "after_height d = Num (max 1 ha)"
    unfolding after_height_def mv ha_def using nz by simp
  have "1 \<le> max 1 ha" "max 1 ha \<le> 250 / 3"
    using a by (auto simp: ha_def)
  moreover have "after d \<le> before d \<Longrightarrow> 80 \<le> hb" using top by (simp add: hb_def)
  ultimately show ?thesis using b hb_eq ha_eq
    unfolding hb_def by fastforce
qed

theorem bar_heights_bounded_witness:
  "0 \<le> before (metric_data Fid) \<and> 0 \<le> after (metric_data Fid) \<and> 0 < max (before (metric_data Fid)) (after (metric_data Fid))
   \<and> (\<exists>hb ha. before_height (metric_data Fid) = Num hb \<and> after_height (metric_data Fid) = Num ha
        \<and> 0 \<le> hb \<and> hb \<le> 85 \<and> 1 \<le> ha \<and> ha \<le> 85
        \<and> (after (metric_data Fid) \<le> before (metric_data Fid) \<longrightarrow> 80 \<le> hb))"
proof -
  have h: "0 \<le> before (metric_data Fid)" "0 \<le> after (metric_data Fid)"
    "0 < max (before (metric_data Fid)) (after (metric_data Fid))" by simp_all
  from h bar_heights_bounded [OF h] show ?thesis by blast
qed

text \<open>
  C12: for a sample whose before and after values are both zero, maxVal is 0 and both heights are NaN: the after bar floor does not apply, since Math.max(1, NaN) is NaN.
\<close>
theorem zero_sample_heights_NaN:
  "before d = 0 \<Longrightarrow> after d = 0 \<Longrightarrow> before_height d = NaN \<and> after_height d = NaN"
  by (simp add: before_height_def after_height_def maxVal_def js_simps)

theorem zero_sample_heights_NaN_witness:
  "before \<lparr>metric_name = ''Idle'', before = 0, after = 0, unit_label = ''ms''\<rparr> = 0
   \<and> after \<lparr>metric_name = ''Idle'', before = 0, after = 0, unit_label = ''ms''\<rparr> = 0
   \<and> before_height \<lparr>metric_name = ''Idle'', before = 0, after = 0, unit_label = ''ms''\<rparr> = NaN
   \<and> after_height \<lparr>metric_name = ''Idle'', before = 0, after = 0, unit_label = ''ms''\<rparr> = NaN"
proof -
  have h: "before \<lparr>metric_name = ''Idle'', before = 0, after = 0, unit_label = ''ms''\<rparr> = 0"
    "after \<lparr>metric_name = ''Idle'', before = 0, after = 0, unit_label = ''ms''\<rparr> = 0" by simp_all
  from h zero_sample_heights_NaN [OF h] show ?thesis by blast
qed

text \<open>
  C13: no sequence of button clicks selects the cls key, and in every reachable state exactly one of the two buttons is highlighted.
\<close>
theorem cls_never_selected:
  "chart_reach s \<Longrightarrow> metric s \<noteq> Cls \<and> lcp_highlighted (render_chart s) \<noteq> fid_highlighted (render_chart s)"
proof (induction rule: chart_reach.induct)
  case init
  then show ?case by (simp add: chart_init_def view_simps Let_def)
next
  case (step s e)
  then show ?case by (cases e) (simp_all add: setMetric_def view_simps Let_def)
qed

theorem cls_never_selected_witness:
  "chart_reach (chart_step chart_init ClickFid) \<and> metric (chart_step chart_init ClickFid) \<noteq> Cls
   \<and> lcp_highlighted (render_chart (chart_step chart_init ClickFid)) \<noteq> fid_highlighted (render_chart (chart_step chart_init ClickFid))"
proof -
  have h: "chart_reach (chart_step chart_init ClickFid)"
    by (rule chart_reach.step [OF chart_reach.init])
  from h cls_never_selected [OF h] show ?thesis by blast
qed


lemma all_metric_keys: "(\<forall>k::metric_key. P k) \<longleftrightarrow> P Lcp \<and> P Fid \<and> P Cls"
proof -
  have "(\<forall>k::metric_key. P k) = enum_class.enum_all P" by (simp add: enum_all_UNIV)
  also have "\<dots> = (P Lcp \<and> P Fid \<and> P Cls)" by (simp only: enum_all_metric_key_def)
  finally show ?thesis .
qed

text \<open>
  C20: whatever key the state holds, including the cls row no button
  selects, the render draws both bars with finite numbers: no NaN or
  infinite height reaches the page from the table.
\<close>

theorem render_heights_finite:
  "js_finite (before_pct (render_chart s)) \<and> js_finite (after_pct (render_chart s))"
proof -
  have "\<forall>k. js_finite (before_height (metric_data k)) \<and> js_finite (after_height (metric_data k))"
    by (simp add: all_metric_keys before_height_def after_height_def maxVal_def js_simps)
  then show ?thesis by (simp add: view_simps Let_def)
qed

end
