(* ===== verification/PageShell.thy ===== *)
theory PageShell
  imports Prelude
begin

text \<open>
  The page shell, \<open>App\<close> in \<open>src/App.tsx\<close> (lines 21--333): the \<open>scrolled\<close>
  flag set by a window scroll listener that an effect registers and removes
  (lines 22 and 25--29), the mobile menu flag and its toggle button
  (lines 23 and 68), the logo that scrolls to the top (line 54), and
  \<open>scrollToSection\<close> (lines 31--46), which closes the menu and, when the
  section element exists, scrolls so that its top lands under the fixed
  80-pixel header. The DOM is the record \<open>layout\<close>: each section id's
  \<open>getBoundingClientRect().top\<close> and the current \<open>pageYOffset\<close>; a handler
  returns the new state and the \<open>window.scrollTo\<close> target it issues, if any.
  Pixel values are rationals.
\<close>

subsection \<open>State, layout, events\<close>

record page =
  scrolled :: bool
  menuOpen :: bool
  scroll_listener :: bool

record layout =
  element_top :: "js_string \<Rightarrow> rat option"
  page_y :: rat

datatype page_event =
    PageMount
  | PageUnmount
  | WindowScroll rat
  | ToggleMenu
  | LogoClick
  | NavClick js_string

definition page_init :: page where
  "page_init = \<lparr>scrolled = False, menuOpen = False, scroll_listener = False\<rparr>"

definition headerOffset :: rat where
  "headerOffset = 80"

subsection \<open>Handlers\<close>

text \<open>\<open>handleScroll\<close> (line 26), run only while the listener is registered.\<close>

definition handleScroll :: "rat \<Rightarrow> page \<Rightarrow> page" where
  "handleScroll y p = (if scroll_listener p then p\<lparr>scrolled := 50 < y\<rparr> else p)"

text \<open>\<open>scrollToSection(id)\<close> (lines 31--46): the menu is closed in every case.\<close>

definition scrollToSection :: "layout \<Rightarrow> js_string \<Rightarrow> page \<Rightarrow> page \<times> rat option" where
  "scrollToSection lay sid p =
     (let p' = p\<lparr>menuOpen := False\<rparr> in
      case element_top lay sid of
        None \<Rightarrow> (p', None)
      | Some elementPosition \<Rightarrow> (p', Some (elementPosition + page_y lay - headerOffset)))"

fun page_step :: "layout \<Rightarrow> page \<Rightarrow> page_event \<Rightarrow> page \<times> rat option" where
  "page_step lay p PageMount = (p\<lparr>scroll_listener := True\<rparr>, None)"
| "page_step lay p PageUnmount = (p\<lparr>scroll_listener := False\<rparr>, None)"
| "page_step lay p (WindowScroll y) = (handleScroll y p, None)"
| "page_step lay p ToggleMenu = (p\<lparr>menuOpen := \<not> menuOpen p\<rparr>, None)"
| "page_step lay p LogoClick = (p, Some 0)"
| "page_step lay p (NavClick sid) = scrollToSection lay sid p"

text \<open>
  Where an element is after a scroll to \<open>y\<close>: its document position
  (viewport top plus the old offset) minus the new offset.
\<close>

definition top_after_scroll :: "layout \<Rightarrow> rat \<Rightarrow> rat \<Rightarrow> rat" where
  "top_after_scroll lay elementPosition y = elementPosition + page_y lay - y"

text \<open>A run of handlers; the scroll commands issued are dropped.\<close>

definition page_run :: "layout \<Rightarrow> page \<Rightarrow> page_event list \<Rightarrow> page" where
  "page_run lay p es = fold (\<lambda>e q. fst (page_step lay q e)) es p"

lemma page_run_Cons [simp]: "page_run lay p (e # es) = page_run lay (fst (page_step lay p e)) es"
  by (simp add: page_run_def)

lemma page_run_Nil [simp]: "page_run lay p [] = p"
  by (simp add: page_run_def)

lemma page_step_keeps_scrolled:
  "\<not> scroll_listener p \<Longrightarrow> e \<noteq> PageMount \<Longrightarrow>
   scrolled (fst (page_step lay p e)) = scrolled p \<and> \<not> scroll_listener (fst (page_step lay p e))"
  by (cases e) (simp_all add: handleScroll_def scrollToSection_def Let_def split: option.split)

subsection \<open>Properties\<close>

text \<open>
  C14: a navigation click always closes the mobile menu; when the section
  exists, the scroll it issues brings the section's top exactly to the
  80-pixel header offset, and when it does not, no scroll is issued.
\<close>

theorem nav_click_lands_below_header:
  "\<not> menuOpen (fst (page_step lay p (NavClick sid)))
   \<and> (case element_top lay sid of
        None \<Rightarrow> snd (page_step lay p (NavClick sid)) = None
      | Some t \<Rightarrow> (\<exists>y. snd (page_step lay p (NavClick sid)) = Some y \<and> top_after_scroll lay t y = headerOffset))"
  by (simp add: scrollToSection_def top_after_scroll_def Let_def split: option.split)

text \<open>
  C15: while the listener is registered a scroll event sets \<open>scrolled\<close> to
  whether the offset passed 50 pixels; after the page unmounts, no sequence of
  events without a new mount changes \<open>scrolled\<close> or re-registers the
  listener: the effect's cleanup removed it.
\<close>

theorem scroll_flag_follows_listener:
  "scrolled (fst (page_step lay (fst (page_step lay p PageMount)) (WindowScroll y))) = (50 < y)
   \<and> (PageMount \<notin> set es \<longrightarrow>
      scrolled (page_run lay (fst (page_step lay p PageUnmount)) es) = scrolled p
      \<and> \<not> scroll_listener (page_run lay (fst (page_step lay p PageUnmount)) es))"
proof -
  have "\<And>q. \<not> scroll_listener q \<Longrightarrow> PageMount \<notin> set es \<Longrightarrow>
      scrolled (page_run lay q es) = scrolled q \<and> \<not> scroll_listener (page_run lay q es)"
  proof (induction es)
    case Nil
    then show ?case by simp
  next
    case (Cons e es)
    then show ?case using page_step_keeps_scrolled [of q e lay] by auto
  qed
  then show ?thesis by (simp add: handleScroll_def)
qed

theorem scroll_flag_follows_listener_witness:
  "scrolled (fst (page_step \<lparr>element_top = (\<lambda>_. None), page_y = 0\<rparr>
       (fst (page_step \<lparr>element_top = (\<lambda>_. None), page_y = 0\<rparr> page_init PageMount)) (WindowScroll 120)))
   \<and> PageMount \<notin> set [WindowScroll 10, ToggleMenu]
   \<and> \<not> scroll_listener (page_run \<lparr>element_top = (\<lambda>_. None), page_y = 0\<rparr>
         (fst (page_step \<lparr>element_top = (\<lambda>_. None), page_y = 0\<rparr> page_init PageUnmount)) [WindowScroll 10, ToggleMenu])"
  using scroll_flag_follows_listener [of "\<lparr>element_top = (\<lambda>_. None), page_y = 0\<rparr>" page_init 120
      "[WindowScroll 10, ToggleMenu]"]
  by simp

end
