(* ===== verification/PageContent.thy ===== *)
theory PageContent
  imports PageShell
begin

text \<open>
  What \<open>App\<close> renders (\<open>src/App.tsx\<close>, lines 11--19 and 48--328): the
  navigation bar and the mobile overlay with their links, the hero link, the
  sections of \<open>main\<close> with their ids, headings and mounted widgets, the
  skill cards, and the anchors that have no handler. Every link's
  \<open>onClick\<close> is \<open>scrollToSection(id)\<close> of \<open>PageShell\<close>; the properties tie the links to the sections they target and
  the render of the bar to the shell's state.
\<close>

subsection \<open>Links\<close>

record nav_link =
  link_href :: js_string
  link_target :: js_string
  link_label :: js_string

text \<open>The desktop links (lines 61--66).\<close>

definition desktop_nav :: "nav_link list" where
  "desktop_nav =
     [\<lparr>link_href = ''#about'', link_target = ''about'', link_label = ''Tentang Saya''\<rparr>,
      \<lparr>link_href = ''#projects'', link_target = ''projects'', link_label = ''Proyek''\<rparr>,
      \<lparr>link_href = ''#skills'', link_target = ''skills'', link_label = ''Keahlian''\<rparr>,
      \<lparr>link_href = ''#contact'', link_target = ''contact'', link_label = ''Kontak''\<rparr>]"

text \<open>The links of the mobile overlay (lines 76--81).\<close>

definition mobile_nav :: "nav_link list" where
  "mobile_nav =
     [\<lparr>link_href = ''#about'', link_target = ''about'', link_label = ''Tentang Saya''\<rparr>,
      \<lparr>link_href = ''#projects'', link_target = ''projects'', link_label = ''Proyek''\<rparr>,
      \<lparr>link_href = ''#skills'', link_target = ''skills'', link_label = ''Keahlian''\<rparr>,
      \<lparr>link_href = ''#contact'', link_target = ''contact'', link_label = ''Kontak''\<rparr>]"

text \<open>The hero's call to action (lines 102--109).\<close>

definition hero_link :: nav_link where
  "hero_link = \<lparr>link_href = ''#about'', link_target = ''about'', link_label = ''JELAJAHI KARYA SAYA''\<rparr>"

definition all_nav_links :: "nav_link list" where
  "all_nav_links = desktop_nav @ mobile_nav @ [hero_link]"

subsection \<open>Sections and widgets\<close>

datatype widget = ParityWidget | StageWidget | MetricWidget | ServerRoomScene

record page_section =
  sec_id :: "js_string option"
  sec_heading :: js_string
  sec_widgets :: "widget list"

text \<open>
  The sections of \<open>main\<close> in order (lines 113--317): the \<open>id\<close> attribute
  where there is one, the \<open>h2\<close> heading, and the components mounted inside.
\<close>

definition main_sections :: "page_section list" where
  "main_sections =
     [\<lparr>sec_id = Some ''about'', sec_heading = ''Membangun Solusi Digital'', sec_widgets = []\<rparr>,
      \<lparr>sec_id = Some ''projects'', sec_heading = ''Sistem Monitoring Jaringan'', sec_widgets = [ParityWidget]\<rparr>,
      \<lparr>sec_id = None, sec_heading = ''Otomatisasi Pipeline Data'', sec_widgets = [StageWidget]\<rparr>,
      \<lparr>sec_id = None, sec_heading = ''Hasil Nyata & Optimasi'', sec_widgets = [MetricWidget]\<rparr>,
      \<lparr>sec_id = None, sec_heading = ''Perjalanan Karir'', sec_widgets = [ServerRoomScene]\<rparr>,
      \<lparr>sec_id = Some ''skills'', sec_heading = ''Tech Stack'', sec_widgets = []\<rparr>,
      \<lparr>sec_id = Some ''contact'', sec_heading = ''Mari Bekerja Sama'', sec_widgets = []\<rparr>]"

definition section_ids :: "js_string list" where
  "section_ids = concat (map (\<lambda>s. case sec_id s of Some i \<Rightarrow> [i] | None \<Rightarrow> []) main_sections)"

definition mounted_widgets :: "widget list" where
  "mounted_widgets = concat (map sec_widgets main_sections)"

subsection \<open>Skill cards\<close>

record skill =
  skill_name :: js_string
  skill_category :: js_string
  skill_delay :: js_string

text \<open>The props passed to \<open>SkillCard\<close> (lines 261--290).\<close>

definition skills :: "skill list" where
  "skills =
     [\<lparr>skill_name = ''React & Next.js'', skill_category = ''Frontend Development'', skill_delay = ''0s''\<rparr>,
      \<lparr>skill_name = ''TypeScript'', skill_category = ''Language'', skill_delay = ''0.1s''\<rparr>,
      \<lparr>skill_name = ''Node.js & Go'', skill_category = ''Backend Systems'', skill_delay = ''0.2s''\<rparr>,
      \<lparr>skill_name = ''Three.js / WebGL'', skill_category = ''Creative Coding'', skill_delay = ''0.3s''\<rparr>,
      \<lparr>skill_name = ''AWS & Docker'', skill_category = ''DevOps & Cloud'', skill_delay = ''0.4s''\<rparr>,
      \<lparr>skill_name = ''UI/UX Design'', skill_category = ''Figma & Prototyping'', skill_delay = ''0.5s''\<rparr>]"

record card_view =
  card_title :: js_string
  card_caption :: js_string
  card_animation_delay :: js_string

text \<open>\<open>SkillCard\<close> (lines 11--19): the name as heading, the category below, the delay as style.\<close>

definition SkillCard :: "skill \<Rightarrow> card_view" where
  "SkillCard s = \<lparr>card_title = skill_name s, card_caption = skill_category s, card_animation_delay = skill_delay s\<rparr>"

subsection \<open>The navigation bar\<close>

datatype menu_icon = MenuIcon | CloseIcon

record nav_view =
  nav_solid :: bool
  brand_always_visible :: bool
  desktop_links :: "nav_link list"
  icon :: menu_icon
  overlay_links :: "nav_link list"

text \<open>
  The bar (lines 52--72): solid background and shadow once scrolled, the brand
  text visible on small screens only once scrolled, the close icon while the
  menu is open; the overlay with its links is rendered only while it is open
  (lines 75--82).
\<close>

definition render_nav :: "page \<Rightarrow> nav_view" where
  "render_nav p =
     \<lparr>nav_solid = scrolled p,
      brand_always_visible = scrolled p,
      desktop_links = desktop_nav,
      icon = (if menuOpen p then CloseIcon else MenuIcon),
      overlay_links = (if menuOpen p then mobile_nav else [])\<rparr>"

text \<open>A layout in which every section with an id has been laid out.\<close>

definition lays_out_sections :: "layout \<Rightarrow> bool" where
  "lays_out_sections lay \<longleftrightarrow> list_all (\<lambda>i. element_top lay i \<noteq> None) section_ids"

subsection \<open>Anchors without a handler\<close>

text \<open>
  The anchors that have no \<open>onClick\<close>: the mail button of the contact
  section (lines 302--307), the three icon links below it (lines 310--312) and
  the footer's two links (lines 327--328). Having no handler, they change no
  state of the page; a click only triggers the browser's default navigation
  to the \<open>href\<close>, which is not part of the model.
\<close>

record plain_anchor =
  anchor_href :: js_string
  anchor_label :: js_string

definition contact_mail :: plain_anchor where
  "contact_mail = \<lparr>anchor_href = ''mailto:hello@fajar.dev'', anchor_label = ''KIRIM EMAIL''\<rparr>"

definition social_links :: "plain_anchor list" where
  "social_links =
     [\<lparr>anchor_href = ''#'', anchor_label = ''Github''\<rparr>,
      \<lparr>anchor_href = ''#'', anchor_label = ''Linkedin''\<rparr>,
      \<lparr>anchor_href = ''#'', anchor_label = ''Mail''\<rparr>]"

definition footer_links :: "plain_anchor list" where
  "footer_links =
     [\<lparr>anchor_href = ''#'', anchor_label = ''Privacy''\<rparr>,
      \<lparr>anchor_href = ''#'', anchor_label = ''Terms''\<rparr>]"

declare render_nav_def [view_simps] SkillCard_def [view_simps]


subsection \<open>Link lemmas\<close>

lemma section_ids_eq: "section_ids = [''about'', ''projects'', ''skills'', ''contact'']"
  by (simp add: section_ids_def main_sections_def)

lemma nav_targets_in_sections: "l \<in> set all_nav_links \<Longrightarrow> link_target l \<in> set section_ids"
  by (auto simp: all_nav_links_def desktop_nav_def mobile_nav_def hero_link_def section_ids_eq)

subsection \<open>Properties\<close>

text \<open>
  C21: every link of the bar, the overlay and the hero targets the id of a
  section the page renders, its href is that id behind a hash (so the link
  also works without the click handler), and no two sections share an id.
\<close>

theorem nav_links_target_sections:
  "list_all (\<lambda>l. link_target l \<in> set section_ids \<and> link_href l = ''#'' @ link_target l) all_nav_links
   \<and> distinct section_ids"
  by (simp add: all_nav_links_def desktop_nav_def mobile_nav_def hero_link_def section_ids_eq)

text \<open>
  C22: in a layout where the sections have been laid out, clicking any link
  issues a scroll that brings its section exactly under the 80-pixel header,
  and the mobile overlay is no longer rendered afterwards.
\<close>

theorem every_nav_link_scrolls:
  "lays_out_sections lay \<Longrightarrow> l \<in> set all_nav_links \<Longrightarrow>
   \<exists>t y. element_top lay (link_target l) = Some t
     \<and> snd (page_step lay p (NavClick (link_target l))) = Some y
     \<and> top_after_scroll lay t y = headerOffset
     \<and> overlay_links (render_nav (fst (page_step lay p (NavClick (link_target l))))) = []"
proof -
  assume lay: "lays_out_sections lay" and l: "l \<in> set all_nav_links"
  from l have "link_target l \<in> set section_ids" by (rule nav_targets_in_sections)
  with lay obtain t where t: "element_top lay (link_target l) = Some t"
    by (auto simp: lays_out_sections_def list_all_iff)
  then show ?thesis
    by (simp add: scrollToSection_def top_after_scroll_def view_simps Let_def)
qed

theorem every_nav_link_scrolls_witness:
  "lays_out_sections \<lparr>element_top = (\<lambda>_. Some 300), page_y = 40\<rparr> \<and> hero_link \<in> set all_nav_links
   \<and> (\<exists>t y. element_top \<lparr>element_top = (\<lambda>_. Some 300), page_y = 40\<rparr> (link_target hero_link) = Some t
     \<and> snd (page_step \<lparr>element_top = (\<lambda>_. Some 300), page_y = 40\<rparr> page_init (NavClick (link_target hero_link))) = Some y
     \<and> top_after_scroll \<lparr>element_top = (\<lambda>_. Some 300), page_y = 40\<rparr> t y = headerOffset
     \<and> overlay_links (render_nav (fst (page_step \<lparr>element_top = (\<lambda>_. Some 300), page_y = 40\<rparr> page_init
          (NavClick (link_target hero_link))))) = [])"
proof -
  have h: "lays_out_sections \<lparr>element_top = (\<lambda>_. Some 300), page_y = 40\<rparr>" "hero_link \<in> set all_nav_links"
    by (simp_all add: lays_out_sections_def section_ids_eq all_nav_links_def)
  from h every_nav_link_scrolls [OF h, of page_init] show ?thesis by blast
qed

end
