(* ===== verification/Spec2Isabelle.thy ===== *)
theory Spec2Isabelle
  imports ParityDiagram StageAnimator MetricChart PageContent
begin

text \<open>
  \<^bold>\<open>What is verified.\<close> The interactive parts of the portfolio page of this
  repository: \<open>src/App.tsx\<close> (the page shell) and the three diagram widgets of
  \<open>src/components/Diagrams.tsx\<close>. The page mounts the three widgets as
  independent leaves; each keeps React state, recomputes derived values on
  every render, and reacts to clicks, to one interval timer, or to window
  scrolling. Nothing is shared between them.

  \<^bold>\<open>Theories.\<close>
  \<^item> \<open>Prelude\<close>: named theorem collections, the symmetric difference of sets,
    counting folds and the parity of a cardinality under a toggle.
  \<^item> \<open>JsValues\<close>: the JavaScript built-ins the widgets call: numbers
    (\<open>jsnum\<close>: exact rationals plus NaN and the infinities, with \<open>js_mul\<close>,
    \<open>js_div\<close>, \<open>js_max\<close> = \<open>Math.max\<close>), \<open>String(n)\<close> as \<open>show_nat\<close> and
    \<open>parseInt\<close> as \<open>parse_int\<close>, with the lemmas the widgets' proofs use
    (\<open>parseInt\<close> reads back \<open>String(n)\<close>). It states no property of its own:
    facts about the built-ins hold whatever the repository's code does.
  \<^item> \<open>ParityDiagram\<close>: \<open>SurfaceCodeDiagram\<close> (lines 11--97). State
    \<open>errors :: nat list\<close>; \<open>toggleError\<close>; \<open>errorCount\<close> and
    \<open>activeStabilizers\<close> (the \<open>forEach\<close> over \<open>Object.entries\<close> with
    \<open>parseInt\<close> keys); the render (\<open>stab_text\<close>, \<open>status_line\<close>,
    \<open>render_parity\<close>); \<open>parity_reach\<close>, the states reachable by clicks.
    The abstract specification \<open>alerting_spec\<close> is the parity rule on the set
    of activated nodes. Properties C1--C6: refinement of the parity rule, the
    flip of adjacent alerts under a toggle, involution, order independence,
    the invariant of reachable states, reachability of all 32 subsets;
    C16--C17: what the status line (including its divergence from the
    specification) and the render show; C23: the specification's exhaustive
    test, the 32 subsets against a literal reference table
    (\<open>parity_reference_table\<close>), evaluated by the kernel; C25 (liveness):
    from any reachable state at most five clicks restore the initial state
    with no alert.
  \<^item> \<open>StageAnimator\<close>: \<open>TransformerDecoderDiagram\<close> (lines 100--164). The
    record \<open>animator\<close> holds the \<open>step\<close> cell and the host side of
    \<open>setInterval\<close>/\<open>clearInterval\<close> (handle, mounted flag); \<open>mount\<close>,
    \<open>tick\<close>, \<open>unmount\<close> and \<open>animator_step\<close>; \<open>anim_reach\<close>; \<open>render_stage\<close>.
    Properties C7--C10: stage bound and timer/mount agreement, \<open>k\<close> ticks give
    stage \<open>k mod 4\<close>, nothing changes after unmount, one stage highlighted;
    C18: refinement of the abstract cycle \<open>stage_spec\<close> (running flag and
    firings since the last mount) by the component and its host; C19
    (liveness): every stage recurs within fewer than four firings.
  \<^item> \<open>MetricChart\<close>: \<open>PerformanceMetricDiagram\<close> (lines 167--252). Selected
    key, static table \<open>metric_data\<close>, the two buttons (\<open>chart_step\<close>),
    \<open>maxVal\<close>, \<open>before_height\<close>, \<open>after_height\<close>, \<open>render_chart\<close>.
    Properties C11--C13: bounds with headroom (stated with margins that
    exceed double rounding error), NaN heights of an all-zero sample, and the
    unreachable \<open>cls\<close> key; C20 (type): the render never draws a NaN or
    infinite height for any key, proved over an \<open>enum\<close> instance of
    \<open>metric_key\<close>.
  \<^item> \<open>PageShell\<close>: \<open>App\<close> (lines 21--333): the \<open>scrolled\<close> flag and its
    listener, the menu toggle, the logo, \<open>scrollToSection\<close> over an explicit
    \<open>layout\<close> of the DOM. Properties C14--C15.
  \<^item> \<open>PageContent\<close>: what \<open>App\<close> renders (lines 11--19, 48--328): the bar,
    overlay and hero links, the sections of \<open>main\<close> with ids, headings and
    mounted widgets, the skill cards (\<open>SkillCard\<close>), \<open>render_nav\<close>, and the
    anchors without a handler (\<open>contact_mail\<close>, \<open>social_links\<close>,
    \<open>footer_links\<close>) as data. Properties C21 (every link targets an existing,
    unique section id) and C22 (every link click lands its section under the
    header and hides the overlay).
  \<^item> This theory: the page as the product \<open>app_state\<close> of the four states with
    one \<open>app_event\<close> datatype and \<open>app_step\<close>; C24 (refinement): the page
    refines \<open>page_spec\<close>, the product of the three widgets' specifications
    (parity rule on the nodes clicked an odd number of times, the abstract
    cycle \<open>stage_spec\<close> fed with the page's mounts, unmounts and firings
    \<open>anim_events\<close>, the last key chosen), through the observation
    \<open>page_abs\<close>.

  \<^bold>\<open>Modelling choices.\<close> The widgets' loops are folds over fixed lists,
  so every definition is structural and executable; no fuel is needed.
  Doubles are exact rationals: rounding (for example
  \<open>2.8 * 1.2 = 3.3599999999999994\<close>, and \<open>83.33333333333334\<close> for the taller
  bar where the rationals give \<open>250/3\<close>) is not modelled, only the special
  values NaN and infinity that the code can reach. No property states an
  exact fractional value: the bounds of C11 keep more than a point and a half
  of slack, far above the rounding error, so they hold of the doubles too.
  React itself is abstracted: a render is a pure function of the state, a
  state update applies immediately, and \<open>setState\<close> after unmount is not
  modelled separately (the timer's callback updates the cell it closes over).
  A page mount does not re-initialise the parity, chart and shell states (a
  fresh remount of \<open>App\<close> would); \<open>App\<close> is the root and is mounted once.

  \<^bold>\<open>Order of the development.\<close> The parity diagram came first (the
  only derived computation with a real specification), then the animator's
  timer lifecycle, the chart's arithmetic, the shell, the render of the page,
  the exhaustive table of the 32 activated sets, recovery of the parity
  widget, and last the refinement of the whole page.

  \<^bold>\<open>Not modelled.\<close> The static copy (hero text, experience entries,
  the footer's brand and copyright line: text with no state, handler or link;
  much of it lies inside the sections \<open>main_sections\<close> lists, of which only
  ids, headings and widgets are modelled), the browser's default action on
  the anchors without a handler, the \<open>QuantumScene\<close> components (not among
  the repository's files), CSS classes and animation timing (the 2000 ms
  period is not represented: only the order of firings matters), and
  \<open>Number::toString\<close> of fractional values (the chart's labels and the CSS
  heights of lines 226 and 240), whose 17-digit rounding of doubles has no
  counterpart over exact rationals.
\<close>

section \<open>The page: composition of the widgets\<close>

record app_state =
  shell :: page
  parity :: "nat list"
  anim :: animator
  chart :: chart_state

datatype app_event =
    AppMount
  | AppUnmount
  | Scroll rat
  | MenuButton
  | Logo
  | Nav js_string
  | NodeClick nat
  | IntervalFire
  | MetricClick chart_event

definition app_init :: app_state where
  "app_init = \<lparr>shell = page_init, parity = parity_init, anim = anim_init, chart = chart_init\<rparr>"

fun app_step :: "layout \<Rightarrow> app_state \<Rightarrow> app_event \<Rightarrow> app_state" where
  "app_step lay a AppMount = a\<lparr>shell := fst (page_step lay (shell a) PageMount), anim := animator_step (anim a) Mount\<rparr>"
| "app_step lay a AppUnmount = a\<lparr>shell := fst (page_step lay (shell a) PageUnmount), anim := animator_step (anim a) Unmount\<rparr>"
| "app_step lay a (Scroll y) = a\<lparr>shell := fst (page_step lay (shell a) (WindowScroll y))\<rparr>"
| "app_step lay a MenuButton = a\<lparr>shell := fst (page_step lay (shell a) ToggleMenu)\<rparr>"
| "app_step lay a Logo = a\<lparr>shell := fst (page_step lay (shell a) LogoClick)\<rparr>"
| "app_step lay a (Nav sid) = a\<lparr>shell := fst (page_step lay (shell a) (NavClick sid))\<rparr>"
| "app_step lay a (NodeClick q) = a\<lparr>parity := click_node q (parity a)\<rparr>"
| "app_step lay a IntervalFire = a\<lparr>anim := animator_step (anim a) Tick\<rparr>"
| "app_step lay a (MetricClick e) = a\<lparr>chart := chart_step (chart a) e\<rparr>"

definition app_run :: "layout \<Rightarrow> app_state \<Rightarrow> app_event list \<Rightarrow> app_state" where
  "app_run lay a es = fold (\<lambda>e b. app_step lay b e) es a"

text \<open>The events addressed to the parity diagram and to the chart, in order.\<close>

fun parity_events :: "app_event list \<Rightarrow> nat list" where
  "parity_events [] = []"
| "parity_events (NodeClick q # es) = q # parity_events es"
| "parity_events (_ # es) = parity_events es"

fun chart_events :: "app_event list \<Rightarrow> chart_event list" where
  "chart_events [] = []"
| "chart_events (MetricClick e # es) = e # chart_events es"
| "chart_events (_ # es) = chart_events es"

text \<open>
  The events addressed to the animator (its mount, unmount and the interval
  firings), and the abstract specification of the whole page: the parity
  rule on the nodes clicked an odd number of times, the animator's abstract
  cycle, and the last key chosen (\<open>lcp\<close> when none was); \<open>page_abs\<close> reads
  the corresponding observation off the page's state.
\<close>

fun anim_events :: "app_event list \<Rightarrow> anim_event list" where
  "anim_events [] = []"
| "anim_events (AppMount # es) = Mount # anim_events es"
| "anim_events (AppUnmount # es) = Unmount # anim_events es"
| "anim_events (IntervalFire # es) = Tick # anim_events es"
| "anim_events (_ # es) = anim_events es"

fun chart_key :: "chart_event \<Rightarrow> metric_key" where
  "chart_key ClickLcp = Lcp"
| "chart_key ClickFid = Fid"

definition chart_spec :: "chart_event list \<Rightarrow> metric_key" where
  "chart_spec es = last (Lcp # map chart_key es)"

definition page_spec :: "app_event list \<Rightarrow> nat set \<times> (bool \<times> nat) \<times> metric_key" where
  "page_spec es =
     (alerting_spec {n. odd (count (mset (parity_events es)) n)},
      (fst (stage_spec (anim_events es)), snd (stage_spec (anim_events es)) mod 4),
      chart_spec (chart_events es))"

definition page_abs :: "app_state \<Rightarrow> nat set \<times> (bool \<times> nat) \<times> metric_key" where
  "page_abs a = (set (activeStabilizers (parity a)), (mounted (anim a), step (anim a)), metric (chart a))"

lemma app_run_Cons [simp]: "app_run lay a (e # es) = app_run lay (app_step lay a e) es"
  by (simp add: app_run_def)

lemma app_run_Nil [simp]: "app_run lay a [] = a"
  by (simp add: app_run_def)

lemma app_run_parity: "parity (app_run lay a es) = fold click_node (parity_events es) (parity a)"
  by (induction es arbitrary: a rule: parity_events.induct) simp_all

lemma app_run_chart: "chart (app_run lay a es) = fold (\<lambda>e s. chart_step s e) (chart_events es) (chart a)"
  by (induction es arbitrary: a rule: chart_events.induct) simp_all

lemma app_run_anim: "anim (app_run lay a es) = animator_run (anim a) (anim_events es)"
  by (induction es arbitrary: a rule: anim_events.induct) simp_all

lemma chart_run_metric: "metric (fold (\<lambda>e s. chart_step s e) es s) = last (metric s # map chart_key es)"
proof (induction es arbitrary: s)
  case Nil
  then show ?case by simp
next
  case (Cons e es)
  then show ?case by (cases e) (simp_all add: setMetric_def)
qed

text \<open>
  C24: the page refines its specification. After any sequence of page events
  from the start, the alerts shown are the parity rule applied to the nodes
  clicked an odd number of times, the animator runs and shows the stage of
  the abstract cycle fed with the page's mounts, unmounts and firings, and
  the chart shows the last key chosen: the composition preserves each
  widget's contract.
\<close>

theorem page_refines_spec:
  "page_abs (app_run lay app_init es) = page_spec es"
proof -
  have "fold click_node ps [] = fold toggleError ps []" for ps
    by (simp add: click_node_def [abs_def])
  then have p: "set (fold click_node (parity_events es) []) = {n. odd (count (mset (parity_events es)) n)}"
    by (simp add: set_fold_toggleError)
  have a: "mounted (animator_run anim_init (anim_events es)) = fst (stage_spec (anim_events es))
         \<and> step (animator_run anim_init (anim_events es)) = snd (stage_spec (anim_events es)) mod 4"
    using spec_simulation_run [OF anim_inv_init, of False 0 "anim_events es"]
    by (simp add: anim_init_def stage_spec_def)
  show ?thesis
    using p a
    by (simp add: page_abs_def page_spec_def app_run_parity app_run_anim app_run_chart chart_run_metric
        activeStabilizers_set app_init_def parity_init_def chart_init_def chart_spec_def)
qed

end
